theory Spec2Isabelle
  imports Complex_Main
begin

section \<open>The ML price prediction service (src/services/ml-service/app.py)\<close>

text \<open>
  A shallow embedding of the Flask service. Conventions of the model:
  \<^item> a request body is the JSON object of the documented interface: each of its keys is
    present with a value of the documented type, or absent (\<open>None\<close>). \<open>data.get(k, d)\<close>
    is a case distinction on the optional field;
  \<^item> Python's \<open>int\<close> is \<open>int\<close>; Python's \<open>float\<close> is \<open>real\<close>, so binary rounding error is
    not part of the model; strings are ASCII;
  \<^item> the process-wide globals (the model reference), the persisted artifact and the log
    are fields of an explicit state that every operation takes and returns;
  \<^item> the clock is the sequence of values that \<open>datetime.now()\<close> returns during one
    call, \<open>now 0\<close>, \<open>now 1\<close>, ..., with a counter saying how many were read;
  \<^item> an exception is the \<open>Inl\<close> of a sum type.
\<close>

subsection \<open>Distance lookup\<close>

definition AIRPORT_DISTANCES :: "((string \<times> string) \<times> int) list" where
  "AIRPORT_DISTANCES =
    [((''IST'', ''SAW''), 50),
     ((''IST'', ''ESB''), 350),
     ((''IST'', ''ADB''), 330),
     ((''IST'', ''AYT''), 480),
     ((''IST'', ''BJV''), 520),
     ((''IST'', ''DLM''), 600),
     ((''IST'', ''TZX''), 880),
     ((''IST'', ''GZT''), 850),
     ((''IST'', ''VAN''), 1200),
     ((''IST'', ''JFK''), 8000),
     ((''IST'', ''LAX''), 11000),
     ((''IST'', ''LHR''), 2500),
     ((''IST'', ''CDG''), 2200),
     ((''IST'', ''FRA''), 1800),
     ((''IST'', ''AMS''), 2200),
     ((''IST'', ''DXB''), 3000),
     ((''ADB'', ''SAW''), 290),
     ((''ADB'', ''ESB''), 450),
     ((''ESB'', ''AYT''), 350),
     ((''AYT'', ''SAW''), 400)]"

text \<open>\<open>key in AIRPORT_DISTANCES\<close> and \<open>AIRPORT_DISTANCES[key]\<close> are one lookup in the
  dictionary; the keys of the literal are distinct, so the first entry is the entry.\<close>

definition get_distance :: "string \<Rightarrow> string \<Rightarrow> int" where
  "get_distance from_airport to_airport =
    (let key = (from_airport, to_airport);
         reverse_key = (to_airport, from_airport)
     in case map_of AIRPORT_DISTANCES key of
          Some km \<Rightarrow> km
        | None \<Rightarrow>
            (case map_of AIRPORT_DISTANCES reverse_key of
               Some km \<Rightarrow> km
             | None \<Rightarrow> 500))"

subsection \<open>Dates: the part of Python's datetime that the service uses\<close>

text \<open>A naive \<open>datetime\<close>. The constructors of the library only build valid ones
  (month 1..12, day within the month, hour below 24 and so on).\<close>

record datetime =
  dt_year :: int
  dt_month :: int
  dt_day :: int
  dt_hour :: int
  dt_minute :: int
  dt_second :: int
  dt_microsecond :: int

definition is_leap :: "int \<Rightarrow> bool" where
  "is_leap y = (y mod 4 = 0 \<and> (y mod 100 \<noteq> 0 \<or> y mod 400 = 0))"

definition days_before_year :: "int \<Rightarrow> int" where
  "days_before_year year =
    (let y = year - 1 in y * 365 + y div 4 - y div 100 + y div 400)"

definition DAYS_IN_MONTH :: "int list" where
  "DAYS_IN_MONTH = [-1, 31, 28, 31, 30, 31, 30, 31, 31, 30, 31, 30, 31]"

definition DAYS_BEFORE_MONTH :: "int list" where
  "DAYS_BEFORE_MONTH = [-1, 0, 31, 59, 90, 120, 151, 181, 212, 243, 273, 304, 334]"

definition days_in_month :: "int \<Rightarrow> int \<Rightarrow> int" where
  "days_in_month year m =
    (if m = 2 \<and> is_leap year then 29 else DAYS_IN_MONTH ! nat m)"

definition days_before_month :: "int \<Rightarrow> int \<Rightarrow> int" where
  "days_before_month year m =
    DAYS_BEFORE_MONTH ! nat m + (if 2 < m \<and> is_leap year then 1 else 0)"

definition toordinal :: "datetime \<Rightarrow> int" where
  "toordinal d =
    days_before_year (dt_year d) + days_before_month (dt_year d) (dt_month d) + dt_day d"

text \<open>Monday is 0, Sunday is 6.\<close>

definition weekday :: "datetime \<Rightarrow> int" where
  "weekday d = (toordinal d + 6) mod 7"

text \<open>\<open>(a - b).days\<close>: the subtraction builds a \<open>timedelta\<close> from the differences of the
  ordinals, of the seconds of the day and of the microseconds, and the constructor
  normalises it by carrying microseconds into seconds and seconds into days, with
  floor division.\<close>

definition sub_days :: "datetime \<Rightarrow> datetime \<Rightarrow> int" where
  "sub_days a b =
    (let days = toordinal a - toordinal b;
         secs1 = dt_second a + dt_minute a * 60 + dt_hour a * 3600;
         secs2 = dt_second b + dt_minute b * 60 + dt_hour b * 3600;
         us = dt_microsecond a - dt_microsecond b
     in days + ((secs1 - secs2) + us div 1000000) div 86400)"

text \<open>\<open>strftime('%Y-%m-%d')\<close>, for the years 1000..9999 that a clock shows.\<close>

definition digit_char :: "int \<Rightarrow> char" where
  "digit_char n = ''0123456789'' ! nat n"

definition strftime_ymd :: "datetime \<Rightarrow> string" where
  "strftime_ymd d =
    [digit_char (dt_year d div 1000 mod 10), digit_char (dt_year d div 100 mod 10),
     digit_char (dt_year d div 10 mod 10), digit_char (dt_year d mod 10)] @ ''-'' @
    [digit_char (dt_month d div 10 mod 10), digit_char (dt_month d mod 10)] @ ''-'' @
    [digit_char (dt_day d div 10 mod 10), digit_char (dt_day d mod 10)]"

text \<open>\<open>strptime(s, '%Y-%m-%d')\<close>. The library turns the format into the regular
  expression \<open>(\d\d\d\d)-(1[0-2]|0[1-9]|[1-9])-(3[0-1]|[1-2]\d|0[1-9]|[1-9]| [1-9])\<close>,
  matches it at the start of the string, raises ValueError when nothing matches or when
  the match leaves text over, and builds the date, which raises ValueError for a day or
  a year that does not exist. The alternatives are tried in the order written.\<close>

definition digit_val :: "char \<Rightarrow> int option" where
  "digit_val c =
    map_of [(CHR ''0'', 0), (CHR ''1'', 1), (CHR ''2'', 2), (CHR ''3'', 3), (CHR ''4'', 4),
            (CHR ''5'', 5), (CHR ''6'', 6), (CHR ''7'', 7), (CHR ''8'', 8), (CHR ''9'', 9)] c"

text \<open>One alternative of two characters: the first in \<open>as\<close>, the second in \<open>bs\<close>; and
  one of a single digit 1..9. Each returns the number read and the rest of the string.\<close>

fun two_chars :: "string \<Rightarrow> string \<Rightarrow> string \<Rightarrow> (int \<times> string) list" where
  "two_chars as bs (a # b # rest) =
    (if a \<in> set as \<and> b \<in> set bs
     then (case (digit_val a, digit_val b) of
             (Some x, Some y) \<Rightarrow> [(10 * x + y, rest)]
           | (None, Some y) \<Rightarrow> [(y, rest)]
           | _ \<Rightarrow> [])
     else [])"
| "two_chars as bs _ = []"

fun one_char :: "string \<Rightarrow> (int \<times> string) list" where
  "one_char (a # rest) =
    (if a \<in> set ''123456789''
     then (case digit_val a of Some x \<Rightarrow> [(x, rest)] | None \<Rightarrow> [])
     else [])"
| "one_char [] = []"

definition re_month :: "string \<Rightarrow> (int \<times> string) list" where
  "re_month s = two_chars ''1'' ''012'' s @ two_chars ''0'' ''123456789'' s @ one_char s"

definition re_day :: "string \<Rightarrow> (int \<times> string) list" where
  "re_day s =
    two_chars ''3'' ''01'' s @ two_chars ''12'' ''0123456789'' s @
    two_chars ''0'' ''123456789'' s @ one_char s @ two_chars '' '' ''123456789'' s"

fun re_dash :: "string \<Rightarrow> string list" where
  "re_dash (c # rest) = (if c = CHR ''-'' then [rest] else [])"
| "re_dash [] = []"

fun re_year :: "string \<Rightarrow> (int \<times> string) list" where
  "re_year (a # b # c # d # rest) =
    (case (digit_val a, digit_val b, digit_val c, digit_val d) of
       (Some w, Some x, Some y, Some z) \<Rightarrow> [(1000 * w + 100 * x + 10 * y + z, rest)]
     | _ \<Rightarrow> [])"
| "re_year _ = []"

text \<open>All the ways the expression matches a prefix, in the order a backtracking matcher
  finds them; the library takes the first.\<close>

definition re_matches :: "string \<Rightarrow> (int \<times> int \<times> int \<times> string) list" where
  "re_matches s =
    concat (map (\<lambda>(y, r0).
      concat (map (\<lambda>r1.
        concat (map (\<lambda>(m, r2).
          concat (map (\<lambda>r3.
            map (\<lambda>(d, r4). (y, m, d, r4)) (re_day r3))
          (re_dash r2)))
        (re_month r1)))
      (re_dash r0)))
    (re_year s))"

datatype error =
    ValueError
  | AttributeError
  | NotFittedError
  | LoadError
  | FitError
  | SaveError

definition strptime_ymd :: "string \<Rightarrow> error + datetime" where
  "strptime_ymd s =
    (case re_matches s of
       [] \<Rightarrow> Inl ValueError
     | (y, m, d, rest) # _ \<Rightarrow>
         if rest \<noteq> [] then Inl ValueError
         else if 1 \<le> y \<and> y \<le> 9999 \<and> 1 \<le> m \<and> m \<le> 12 \<and> 1 \<le> d \<and> d \<le> days_in_month y m
         then Inr \<lparr>dt_year = y, dt_month = m, dt_day = d, dt_hour = 0, dt_minute = 0,
                   dt_second = 0, dt_microsecond = 0\<rparr>
         else Inl ValueError)"

subsection \<open>Feature extraction\<close>

record request =
  fromAirport :: "string option"
  toAirport :: "string option"
  departureDate :: "string option"
  durationMinutes :: "real option"

record features =
  duration_minutes :: real
  month :: int
  day_of_week :: int
  day_of_month :: int
  days_until_departure :: int
  is_weekend :: int
  is_peak_season :: int
  distance :: int
  is_international :: int

definition domestic_airports :: "string list" where
  "domestic_airports =
    [''IST'', ''SAW'', ''ESB'', ''ADB'', ''AYT'', ''BJV'', ''DLM'', ''TZX'', ''GZT'', ''VAN'']"

text \<open>\<open>data.get(key, default)\<close> on an optional field.\<close>

definition get_or :: "'a option \<Rightarrow> 'a \<Rightarrow> 'a" where
  "get_or field dflt = (case field of Some v \<Rightarrow> v | None \<Rightarrow> dflt)"

text \<open>Lines 74 to 78: the parsed date or, on any exception of the parser, a new reading
  of the clock. The second component is the clock counter afterwards.\<close>

definition parse_date :: "(nat \<Rightarrow> datetime) \<Rightarrow> nat \<Rightarrow> string \<Rightarrow> datetime \<times> nat" where
  "parse_date now t departure_date =
    (case strptime_ymd departure_date of
       Inr date_obj \<Rightarrow> (date_obj, t)
     | Inl _ \<Rightarrow> (now t, Suc t))"

text \<open>The default of \<open>departureDate\<close> is an argument of \<open>get\<close>, so the clock is read for
  it whether the field is present or not.\<close>

definition extract_features :: "(nat \<Rightarrow> datetime) \<Rightarrow> nat \<Rightarrow> request \<Rightarrow> features \<times> nat" where
  "extract_features now t data =
    (let from_airport = get_or (fromAirport data) ''IST'';
         to_airport = get_or (toAirport data) ''SAW'';
         departure_date = get_or (departureDate data) (strftime_ymd (now t));
         duration_minutes = get_or (durationMinutes data) 90;
         (date_obj, t2) = parse_date now (Suc t) departure_date;
         month = dt_month date_obj;
         day_of_week = weekday date_obj;
         day_of_month = dt_day date_obj;
         days_until = sub_days date_obj (now t2);
         days_until = (if days_until < 0 then 0 else days_until);
         is_weekend = (if 5 \<le> day_of_week then 1 else 0);
         is_peak_season = (if month \<in> set [6, 7, 8, 12] then 1 else 0);
         distance = get_distance from_airport to_airport;
         is_international =
           (if from_airport \<in> set domestic_airports \<and> to_airport \<in> set domestic_airports
            then 0 else 1)
     in (\<lparr>duration_minutes = duration_minutes, month = month, day_of_week = day_of_week,
          day_of_month = day_of_month, days_until_departure = days_until,
          is_weekend = is_weekend, is_peak_season = is_peak_season, distance = distance,
          is_international = is_international\<rparr>, Suc t2))"

subsection \<open>The model, its artifact and the log\<close>

text \<open>A fitted random forest is opaque: what it predicts for one row of named columns
  (\<open>model.predict(X)[0]\<close>, which may raise) and its \<open>feature_importances_\<close>.
  An estimator is the object \<open>RandomForestRegressor(...)\<close>, fitted or not.\<close>

record forest =
  predict_fn :: "(string \<times> real) list \<Rightarrow> error + real"
  feature_importances :: "real list"

record estimator =
  n_estimators :: int
  max_depth :: int
  fitted :: "forest option"

text \<open>The file at \<open>model/flight_price_model.joblib\<close>, when it exists: a pickled
  estimator, or bytes that \<open>joblib.load\<close> cannot read.\<close>

datatype artifact = Corrupt | Pickled estimator

datatype log_entry =
    LogModelLoaded
  | LogLoadFailed error
  | LogTrainingNew
  | LogTrainedSaved
  | LogPrediction "string option" "string option" real
  | LogPredictionError error
  | LogBatchError error
  | LogRetrainError error

record state =
  model :: "estimator option"
  model_file :: "artifact option"
  logged :: "log_entry list"

text \<open>What the libraries do during training: \<open>fit\<close> is the outcome of \<open>model.fit(X, y)\<close>
  on the seeded synthetic data with the given columns, \<open>dump\<close> the exception of
  \<open>os.makedirs\<close> and \<open>joblib.dump\<close>, if any (the file is then taken as untouched).\<close>

record env =
  fit :: "string list \<Rightarrow> error + forest"
  dump :: "error option"

definition joblib_load :: "artifact \<Rightarrow> error + estimator" where
  "joblib_load a = (case a of Corrupt \<Rightarrow> Inl LoadError | Pickled m \<Rightarrow> Inr m)"

text \<open>The columns of the training frame \<open>X\<close> (lines 169 to 179).\<close>

definition training_columns :: "string list" where
  "training_columns =
    [''duration_minutes'', ''month'', ''day_of_week'', ''day_of_month'',
     ''days_until_departure'', ''is_weekend'', ''is_peak_season'', ''distance'',
     ''is_international'']"

definition new_regressor :: estimator where
  "new_regressor = \<lparr>n_estimators = 100, max_depth = 10, fitted = None\<rparr>"

text \<open>Lines 133 to 194 of \<open>train_model\<close>: the global is assigned the new estimator
  before \<open>fit\<close> runs on it, and \<open>fit\<close> works on that object in place.\<close>

definition train_new_model :: "env \<Rightarrow> state \<Rightarrow> (error + unit) \<times> state" where
  "train_new_model env s =
    (let s1 = s\<lparr>logged := logged s @ [LogTrainingNew]\<rparr>;
         s2 = s1\<lparr>model := Some new_regressor\<rparr>
     in case fit env training_columns of
          Inl e \<Rightarrow> (Inl e, s2)
        | Inr f \<Rightarrow>
            (let m = new_regressor\<lparr>fitted := Some f\<rparr>;
                 s3 = s2\<lparr>model := Some m\<rparr>
             in case dump env of
                  Some e \<Rightarrow> (Inl e, s3)
                | None \<Rightarrow>
                    (Inr (), s3\<lparr>model_file := Some (Pickled m),
                                 logged := logged s3 @ [LogTrainedSaved]\<rparr>)))"

definition train_model :: "env \<Rightarrow> state \<Rightarrow> (error + unit) \<times> state" where
  "train_model env s =
    (case model_file s of
       Some a \<Rightarrow>
         (case joblib_load a of
            Inr m \<Rightarrow> (Inr (), s\<lparr>model := Some m, logged := logged s @ [LogModelLoaded]\<rparr>)
          | Inl e \<Rightarrow> train_new_model env (s\<lparr>logged := logged s @ [LogLoadFailed e]\<rparr>))
     | None \<Rightarrow> train_new_model env s)"

subsection \<open>The endpoints\<close>

datatype failure = NoDataProvided | NoFlightsData | ModelNotLoaded | Raised error

record prediction =
  out_fromAirport :: "string option"
  out_toAirport :: "string option"
  out_departureDate :: "string option"
  predictedPrice :: real

datatype response =
    HealthOk bool
  | PredictOk real string features real
  | BatchOk "prediction list"
  | InfoOk string int int "(string \<times> real) list"
  | RetrainOk
  | Failure nat failure

definition health :: "state \<Rightarrow> response" where
  "health s = HealthOk (model s \<noteq> None)"

text \<open>The dictionary \<open>features\<close> in the order of its literal (lines 103 to 113), which is
  the row of the frame \<open>pd.DataFrame([features])\<close>.\<close>

definition feature_items :: "features \<Rightarrow> (string \<times> real) list" where
  "feature_items f =
    [(''duration_minutes'', duration_minutes f),
     (''month'', real_of_int (month f)),
     (''day_of_week'', real_of_int (day_of_week f)),
     (''day_of_month'', real_of_int (day_of_month f)),
     (''days_until_departure'', real_of_int (days_until_departure f)),
     (''is_weekend'', real_of_int (is_weekend f)),
     (''is_peak_season'', real_of_int (is_peak_season f)),
     (''distance'', real_of_int (distance f)),
     (''is_international'', real_of_int (is_international f))]"

definition model_predict :: "estimator option \<Rightarrow> (string \<times> real) list \<Rightarrow> error + real" where
  "model_predict mo row =
    (case mo of
       None \<Rightarrow> Inl AttributeError
     | Some m \<Rightarrow> (case fitted m of None \<Rightarrow> Inl NotFittedError | Some f \<Rightarrow> predict_fn f row))"

text \<open>\<open>str.upper()\<close> on ASCII.\<close>

definition upper_char :: "char \<Rightarrow> char" where
  "upper_char c =
    (case map_of (zip ''abcdefghijklmnopqrstuvwxyz'' ''ABCDEFGHIJKLMNOPQRSTUVWXYZ'') c of
       Some u \<Rightarrow> u
     | None \<Rightarrow> c)"

definition upper :: "string \<Rightarrow> string" where
  "upper s = map upper_char s"

text \<open>Lines 233 to 236: the test of the override, on the raw fields of the request.\<close>

definition is_domestic :: "request \<Rightarrow> bool" where
  "is_domestic data =
    (let from_airport = upper (get_or (fromAirport data) []);
         to_airport = upper (get_or (toAirport data) [])
     in from_airport \<in> set domestic_airports \<and> to_airport \<in> set domestic_airports)"

text \<open>Lines 241 to 256: the body of the override, the value of \<open>predicted_price\<close> when
  the block ends.\<close>

definition domestic_adjustment :: "features \<Rightarrow> real \<Rightarrow> real" where
  "domestic_adjustment f predicted_price =
    (let dist = distance f;
         duration = duration_minutes f;
         adjusted_base = 40;
         adjusted_price = adjusted_base + (real_of_int dist * 0.005) + (duration * 0.1);
         adjusted_price = (if is_peak_season f \<noteq> 0 then adjusted_price + 20 else adjusted_price);
         adjusted_price = (if is_weekend f \<noteq> 0 then adjusted_price + 10 else adjusted_price);
         adjusted_price =
           (if days_until_departure f < 7
            then adjusted_price + real_of_int ((7 - days_until_departure f) * 2)
            else adjusted_price);
         predicted_price = min predicted_price (max adjusted_price 35)
     in min predicted_price 85)"

text \<open>\<open>round(x, 2)\<close>: to the nearest multiple of 0.01, a tie to the even one.\<close>

definition round_half_even :: "real \<Rightarrow> int" where
  "round_half_even x =
    (let n = \<lfloor>x\<rfloor>; r = x - real_of_int n
     in if r < 1 / 2 then n
        else if 1 / 2 < r then n + 1
        else if even n then n else n + 1)"

definition round2 :: "real \<Rightarrow> real" where
  "round2 x = real_of_int (round_half_even (x * 100)) / 100"

text \<open>\<open>not data\<close> for a request object: it has no key.\<close>

definition is_empty :: "request \<Rightarrow> bool" where
  "is_empty data =
    (fromAirport data = None \<and> toAirport data = None \<and> departureDate data = None \<and>
     durationMinutes data = None)"

definition ensure_model :: "env \<Rightarrow> state \<Rightarrow> (error + unit) \<times> state" where
  "ensure_model env s = (if model s = None then train_model env s else (Inr (), s))"

definition predict :: "env \<Rightarrow> (nat \<Rightarrow> datetime) \<Rightarrow> state \<Rightarrow> request option \<Rightarrow> response \<times> state" where
  "predict env now s body =
    (case body of
       None \<Rightarrow> (Failure 400 NoDataProvided, s)
     | Some data \<Rightarrow>
         if is_empty data then (Failure 400 NoDataProvided, s)
         else
           (let (f, t) = extract_features now 0 data
            in case ensure_model env s of
                 (Inl e, s1) \<Rightarrow>
                   (Failure 500 (Raised e), s1\<lparr>logged := logged s1 @ [LogPredictionError e]\<rparr>)
               | (Inr _, s1) \<Rightarrow>
                   (case model_predict (model s1) (feature_items f) of
                      Inl e \<Rightarrow>
                        (Failure 500 (Raised e),
                         s1\<lparr>logged := logged s1 @ [LogPredictionError e]\<rparr>)
                    | Inr raw \<Rightarrow>
                        (let predicted_price =
                               (if is_domestic data \<and> 80 < raw
                                then domestic_adjustment f raw else raw);
                             predicted_price = round2 (max predicted_price 30)
                         in (PredictOk predicted_price ''USD'' f 0.85,
                             s1\<lparr>logged := logged s1 @
                                  [LogPrediction (fromAirport data) (toAirport data)
                                     predicted_price]\<rparr>)))))"

record batch_request =
  flights :: "request list option"

text \<open>The loop of \<open>predict_batch\<close> over the flights still to do, with the clock counter,
  the state and the list \<open>predictions\<close> built so far.\<close>

fun batch_loop ::
  "env \<Rightarrow> (nat \<Rightarrow> datetime) \<Rightarrow> request list \<Rightarrow> nat \<Rightarrow> state \<Rightarrow> prediction list \<Rightarrow>
   (error + prediction list) \<times> state" where
  "batch_loop env now [] t s predictions = (Inr predictions, s)"
| "batch_loop env now (flight # rest) t s predictions =
    (let (f, t') = extract_features now t flight
     in case ensure_model env s of
          (Inl e, s1) \<Rightarrow> (Inl e, s1)
        | (Inr _, s1) \<Rightarrow>
            (case model_predict (model s1) (feature_items f) of
               Inl e \<Rightarrow> (Inl e, s1)
             | Inr raw \<Rightarrow>
                 batch_loop env now rest t' s1
                   (predictions @
                    [\<lparr>out_fromAirport = fromAirport flight,
                      out_toAirport = toAirport flight,
                      out_departureDate = departureDate flight,
                      predictedPrice = round2 (max raw 30)\<rparr>])))"

definition predict_batch ::
  "env \<Rightarrow> (nat \<Rightarrow> datetime) \<Rightarrow> state \<Rightarrow> batch_request option \<Rightarrow> response \<times> state" where
  "predict_batch env now s body =
    (case body of
       None \<Rightarrow> (Failure 400 NoFlightsData, s)
     | Some data \<Rightarrow>
         (case flights data of
            None \<Rightarrow> (Failure 400 NoFlightsData, s)
          | Some fls \<Rightarrow>
              (case batch_loop env now fls 0 s [] of
                 (Inl e, s1) \<Rightarrow>
                   (Failure 500 (Raised e), s1\<lparr>logged := logged s1 @ [LogBatchError e]\<rparr>)
               | (Inr predictions, s1) \<Rightarrow> (BatchOk predictions, s1))))"

text \<open>The names that \<open>model_info\<close> zips with the importances (lines 336 to 338). The
  handler catches nothing, so an estimator without importances raises.\<close>

definition importance_names :: "string list" where
  "importance_names =
    [''duration_minutes'', ''month'', ''day_of_week'', ''day_of_month'',
     ''days_until_departure'', ''is_weekend'', ''is_peak_season'',
     ''distance'', ''is_international'']"

definition model_info :: "state \<Rightarrow> error + response" where
  "model_info s =
    (case model s of
       None \<Rightarrow> Inr (Failure 404 ModelNotLoaded)
     | Some m \<Rightarrow>
         (case fitted m of
            None \<Rightarrow> Inl NotFittedError
          | Some f \<Rightarrow>
              Inr (InfoOk ''RandomForestRegressor'' (n_estimators m) (max_depth m)
                     (zip importance_names (feature_importances f)))))"

definition retrain :: "env \<Rightarrow> state \<Rightarrow> response \<times> state" where
  "retrain env s =
    (case train_model env s of
       (Inr _, s1) \<Rightarrow> (RetrainOk, s1)
     | (Inl e, s1) \<Rightarrow>
         (Failure 500 (Raised e), s1\<lparr>logged := logged s1 @ [LogRetrainError e]\<rparr>))"

text \<open>Start of the process: nothing in memory, whatever file is on disk.\<close>

definition startup :: "env \<Rightarrow> artifact option \<Rightarrow> (error + unit) \<times> state" where
  "startup env file = train_model env \<lparr>model = None, model_file = file, logged = []\<rparr>"

subsection \<open>Reference notions for the statements\<close>

text \<open>The instant of a datetime in microseconds since the first day of year 1, and the
  number of whole days from \<open>b\<close> to \<open>a\<close>: their distance in days, rounded down.\<close>

definition timestamp_us :: "datetime \<Rightarrow> int" where
  "timestamp_us d =
    ((toordinal d * 86400 + (dt_second d + dt_minute d * 60 + dt_hour d * 3600)) * 1000000
     + dt_microsecond d)"

definition whole_days_between :: "datetime \<Rightarrow> datetime \<Rightarrow> int" where
  "whole_days_between a b =
    \<lfloor>real_of_int (timestamp_us a - timestamp_us b) / 86400000000\<rfloor>"

subsection \<open>Example inputs\<close>

text \<open>A clock on Wednesday 2024-07-10 at 09:30, a microsecond later at each reading.\<close>

definition example_clock :: "nat \<Rightarrow> datetime" where
  "example_clock n =
    \<lparr>dt_year = 2024, dt_month = 7, dt_day = 10, dt_hour = 9, dt_minute = 30, dt_second = 0,
     dt_microsecond = int n\<rparr>"

text \<open>A forest that prices a row by its distance alone.\<close>

definition example_forest :: forest where
  "example_forest =
    \<lparr>predict_fn =
       (\<lambda>row. case map_of row ''distance'' of
                 Some km \<Rightarrow> Inr (20.126 + km * 0.05)
               | None \<Rightarrow> Inl ValueError),
     feature_importances = [0.2, 0.05, 0.05, 0.05, 0.15, 0.05, 0.1, 0.25, 0.1]\<rparr>"

definition example_estimator :: estimator where
  "example_estimator = new_regressor\<lparr>fitted := Some example_forest\<rparr>"

definition env_ok :: env where
  "env_ok = \<lparr>fit = (\<lambda>cols. Inr example_forest), dump = None\<rparr>"

definition env_fit_fails :: env where
  "env_fit_fails = \<lparr>fit = (\<lambda>cols. Inl FitError), dump = None\<rparr>"

definition state_loaded :: state where
  "state_loaded =
    \<lparr>model = Some example_estimator, model_file = Some (Pickled example_estimator),
     logged = []\<rparr>"

definition state_corrupt :: state where
  "state_corrupt = \<lparr>model = None, model_file = Some Corrupt, logged = []\<rparr>"

definition example_request :: request where
  "example_request =
    \<lparr>fromAirport = Some ''IST'', toAirport = Some ''SAW'',
     departureDate = Some ''2024-07-15'', durationMinutes = Some 60\<rparr>"

definition past_request :: request where
  "past_request =
    \<lparr>fromAirport = Some ''IST'', toAirport = Some ''ESB'',
     departureDate = Some ''2020-01-01'', durationMinutes = Some 75\<rparr>"

definition malformed_date_request :: request where
  "malformed_date_request =
    \<lparr>fromAirport = Some ''IST'', toAirport = Some ''LHR'',
     departureDate = Some ''15/07/2024'', durationMinutes = None\<rparr>"

definition van_request :: request where
  "van_request =
    \<lparr>fromAirport = Some ''IST'', toAirport = Some ''VAN'',
     departureDate = Some ''2024-09-18'', durationMinutes = Some 100\<rparr>"

definition van_peak_request :: request where
  "van_peak_request =
    \<lparr>fromAirport = Some ''IST'', toAirport = Some ''VAN'',
     departureDate = Some ''2024-08-03'', durationMinutes = Some 400\<rparr>"

definition example_batch :: batch_request where
  "example_batch = \<lparr>flights = Some [van_request, malformed_date_request, example_request]\<rparr>"






section \<open>Properties\<close>

lemmas date_defs =
  parse_date_def strptime_ymd_def re_matches_def re_month_def re_day_def digit_val_def
  digit_char_def strftime_ymd_def days_in_month_def DAYS_IN_MONTH_def is_leap_def
  weekday_def toordinal_def days_before_year_def days_before_month_def
  DAYS_BEFORE_MONTH_def sub_days_def

lemmas extract_defs =
  extract_features_def get_or_def get_distance_def AIRPORT_DISTANCES_def
  domestic_airports_def

lemmas model_defs =
  state_loaded_def example_estimator_def example_forest_def new_regressor_def
  ensure_model_def model_predict_def feature_items_def


subsection \<open>Distance lookup\<close>

text \<open>
  Claim C8. The lookup is symmetric for every pair of airport codes, and a pair that the
  table holds neither as given nor reversed gets the default of 500 km. The function is
  total: its result is a number for every pair of strings, there is no error value.
\<close>

theorem get_distance_symmetric_total:
  "get_distance a b = get_distance b a \<and>
   (map_of AIRPORT_DISTANCES (a, b) = None \<and> map_of AIRPORT_DISTANCES (b, a) = None
      \<longrightarrow> get_distance a b = 500)"
  unfolding get_distance_def AIRPORT_DISTANCES_def Let_def
  by (auto split: option.splits if_splits)

theorem get_distance_symmetric_total_witness:
  "map_of AIRPORT_DISTANCES (''LHR'', ''CDG'') = None \<and>
   map_of AIRPORT_DISTANCES (''CDG'', ''LHR'') = None \<and>
   get_distance ''LHR'' ''CDG'' = 500 \<and> get_distance ''CDG'' ''LHR'' = 500 \<and>
   get_distance ''SAW'' ''IST'' = 50 \<and> get_distance ''IST'' ''SAW'' = 50"
proof -
  have miss: "map_of AIRPORT_DISTANCES (''LHR'', ''CDG'') = None \<and>
      map_of AIRPORT_DISTANCES (''CDG'', ''LHR'') = None"
    by (simp add: AIRPORT_DISTANCES_def)
  have hit: "get_distance ''IST'' ''SAW'' = 50"
    by (simp add: get_distance_def AIRPORT_DISTANCES_def)
  from get_distance_symmetric_total [of "''LHR''" "''CDG''"] miss
    get_distance_symmetric_total [of "''SAW''" "''IST''"] hit
  show ?thesis by simp
qed

subsection \<open>Feature names\<close>

text \<open>
  Claim C9. The nine fields have one order and one spelling in the three places that
  list them: the dictionary that extraction returns (the row given to the model), the
  columns of the training frame, and the names zipped with the importances.
\<close>

theorem feature_names_fixed:
  "map fst (feature_items f) = training_columns \<and>
   importance_names = training_columns \<and>
   training_columns =
     [''duration_minutes'', ''month'', ''day_of_week'', ''day_of_month'',
      ''days_until_departure'', ''is_weekend'', ''is_peak_season'', ''distance'',
      ''is_international'']"
  by (simp add: feature_items_def training_columns_def importance_names_def)

subsection \<open>Dates in feature extraction\<close>

lemma carry_days:
  "((D * 86400 + S) * 1000000 + U) div 86400000000 =
   D + (S + U div 1000000) div (86400::int)"
proof -
  have "((D * 86400 + S) * 1000000 + U) div 86400000000
        = ((D * 86400 + S) * 1000000 + U) div (1000000 * 86400)" by simp
  also have "\<dots> = (((D * 86400 + S) * 1000000 + U) div 1000000) div 86400"
    by (rule zdiv_zmult2_eq) simp
  also have "((D * 86400 + S) * 1000000 + U) div 1000000 = D * 86400 + S + U div 1000000"
    by simp
  also have "(D * 86400 + S + U div 1000000) div 86400 = D + (S + U div 1000000) div 86400"
    by (simp add: add.assoc)
  finally show ?thesis .
qed

text \<open>The carries of the timedelta compute the floor of the quotient.\<close>

lemma sub_days_whole_days: "sub_days a b = whole_days_between a b"
proof -
  have "timestamp_us a - timestamp_us b =
     ((toordinal a - toordinal b) * 86400 +
      ((dt_second a + dt_minute a * 60 + dt_hour a * 3600) -
       (dt_second b + dt_minute b * 60 + dt_hour b * 3600))) * 1000000
     + (dt_microsecond a - dt_microsecond b)"
    by (simp add: timestamp_us_def algebra_simps)
  then have "(timestamp_us a - timestamp_us b) div 86400000000 = sub_days a b"
    by (simp only: carry_days sub_days_def Let_def)
  moreover have "whole_days_between a b = (timestamp_us a - timestamp_us b) div 86400000000"
    unfolding whole_days_between_def
    using floor_divide_of_int_eq
      [of "timestamp_us a - timestamp_us b" "86400000000", where ?'a = real]
    by simp
  ultimately show ?thesis by simp
qed

text \<open>
  Claim C6. \<open>days_until_departure\<close> is the number of whole days from the current instant
  (the reading of the clock taken for the subtraction) to the date that extraction
  parsed, or fell back to, and 0 when that number is negative: it is never negative,
  whatever the date.
\<close>

theorem days_until_departure_floored:
  assumes "parse_date now (Suc t) (get_or (departureDate data) (strftime_ymd (now t)))
             = (date_obj, t2)"
  shows "days_until_departure (fst (extract_features now t data)) =
           max 0 (whole_days_between date_obj (now t2)) \<and>
         0 \<le> days_until_departure (fst (extract_features now t data))"
  using assms
  by (simp add: extract_features_def Let_def sub_days_whole_days max_def)

theorem days_until_departure_floored_witness:
  "parse_date example_clock 1 ''2020-01-01'' =
     (\<lparr>dt_year = 2020, dt_month = 1, dt_day = 1, dt_hour = 0, dt_minute = 0, dt_second = 0,
       dt_microsecond = 0\<rparr>, 1) \<and>
   whole_days_between
     \<lparr>dt_year = 2020, dt_month = 1, dt_day = 1, dt_hour = 0, dt_minute = 0, dt_second = 0,
      dt_microsecond = 0\<rparr> (example_clock 1) = - 1653 \<and>
   days_until_departure (fst (extract_features example_clock 0 past_request)) = 0"
proof -
  let ?d = "\<lparr>dt_year = 2020, dt_month = 1, dt_day = 1, dt_hour = 0, dt_minute = 0,
             dt_second = 0, dt_microsecond = 0\<rparr>"
  have p: "parse_date example_clock (Suc 0)
             (get_or (departureDate past_request) (strftime_ymd (example_clock 0))) = (?d, 1)"
    by (simp add: past_request_def get_or_def date_defs)
  have w: "whole_days_between ?d (example_clock 1) = - 1653"
    by (simp add: whole_days_between_def timestamp_us_def example_clock_def date_defs)
  from days_until_departure_floored
      [where data = past_request and now = example_clock and t = 0, OF p] p w
  show ?thesis
    by (simp add: past_request_def get_or_def)
qed

text \<open>The parser reads back what \<open>strftime\<close> writes: the text YYYY-MM-DD of a date
  that exists parses to that date at midnight.\<close>

lemma digit_val_digit_char: "0 \<le> k \<Longrightarrow> k \<le> 9 \<Longrightarrow> digit_val (digit_char k) = Some k"
proof -
  assume "0 \<le> k" "k \<le> 9"
  then have "k = 0 \<or> k = 1 \<or> k = 2 \<or> k = 3 \<or> k = 4 \<or> k = 5 \<or> k = 6 \<or> k = 7 \<or> k = 8 \<or> k = 9"
    by arith
  then show ?thesis
    by (elim disjE) (simp_all add: digit_val_def digit_char_def)
qed


lemma four_digits:
  assumes "0 \<le> y" "y \<le> 9999"
  shows "1000 * (y div 1000 mod 10) + 100 * (y div 100 mod 10) + 10 * (y div 10 mod 10)
          + y mod 10 = (y::int)"
proof -
  have q2: "y div 100 = y div 10 div 10"
    using zdiv_zmult2_eq [of 10 y 10] by simp
  have q3: "y div 1000 = y div 10 div 10 div 10"
    using zdiv_zmult2_eq [of 10 y 100] q2 by simp
  have "y div 1000 < 10" using assms by linarith
  moreover have "0 \<le> y div 1000" using assms by simp
  ultimately have top: "y div 1000 mod 10 = y div 1000"
    by (rule_tac mod_pos_pos_trivial)
  show ?thesis
    unfolding top unfolding q2 q3
    using div_mult_mod_eq [of y 10] div_mult_mod_eq [of "y div 10" 10]
      div_mult_mod_eq [of "y div 10 div 10" 10]
    by linarith
qed


lemma digit_val_mod10: "digit_val (digit_char (k mod 10)) = Some (k mod 10)"
proof (rule digit_val_digit_char)
  show "0 \<le> k mod 10" by simp
  have "k mod 10 < 10" by simp
  then show "k mod 10 \<le> 9" by linarith
qed

lemma re_year_digits:
  assumes "0 \<le> y" "y \<le> 9999"
  shows "re_year ([digit_char (y div 1000 mod 10), digit_char (y div 100 mod 10),
                   digit_char (y div 10 mod 10), digit_char (y mod 10)] @ r) = [(y, r)]"
proof -
  have "re_year ([digit_char (y div 1000 mod 10), digit_char (y div 100 mod 10),
                   digit_char (y div 10 mod 10), digit_char (y mod 10)] @ r) =
        [(1000 * (y div 1000 mod 10) + 100 * (y div 100 mod 10) + 10 * (y div 10 mod 10)
          + y mod 10, r)]"
    by (simp only: append_Cons append_Nil re_year.simps digit_val_mod10 prod.case option.case)
  then show ?thesis
    by (simp only: four_digits [OF assms])
qed

lemma month_cases:
  assumes "1 \<le> m" "m \<le> 12"
  shows "m = 1 \<or> m = 2 \<or> m = 3 \<or> m = 4 \<or> m = 5 \<or> m = 6 \<or> m = 7 \<or> m = 8 \<or>
      m = 9 \<or> m = 10 \<or> m = 11 \<or> m = (12::int)"
  using assms by arith

lemma re_month_dash:
  assumes "1 \<le> m" "m \<le> 12"
  shows "concat (map (\<lambda>(m', r2). concat (map (G m') (re_dash r2)))
           (re_month ([digit_char (m div 10 mod 10), digit_char (m mod 10)] @ CHR ''-'' # r)))
         = G m r"
  using month_cases [OF assms]
  by (elim disjE) (simp_all add: re_month_def digit_char_def digit_val_def)

lemma days_in_month_le_31:
  assumes "1 \<le> m" "m \<le> 12"
  shows "days_in_month y m \<le> 31"
  using month_cases [OF assms]
  by (elim disjE) (simp_all add: days_in_month_def DAYS_IN_MONTH_def)

lemma day_cases:
  assumes "1 \<le> d" "d \<le> 31"
  shows "d = 1 \<or> d = 2 \<or> d = 3 \<or> d = 4 \<or> d = 5 \<or> d = 6 \<or> d = 7 \<or> d = 8 \<or>
      d = 9 \<or> d = 10 \<or> d = 11 \<or> d = 12 \<or> d = 13 \<or> d = 14 \<or> d = 15 \<or> d = 16 \<or>
      d = 17 \<or> d = 18 \<or> d = 19 \<or> d = 20 \<or> d = 21 \<or> d = 22 \<or> d = 23 \<or> d = 24 \<or>
      d = 25 \<or> d = 26 \<or> d = 27 \<or> d = 28 \<or> d = 29 \<or> d = 30 \<or> d = (31::int)"
  using assms by arith

lemma re_day_digits:
  assumes "1 \<le> d" "d \<le> 31"
  shows "\<exists>tl. re_day [digit_char (d div 10 mod 10), digit_char (d mod 10)] = (d, []) # tl"
  using day_cases [OF assms]
  by (elim disjE) (simp_all add: re_day_def digit_char_def digit_val_def)

lemma re_matches_iso:
  assumes "0 \<le> dt_year dt" "dt_year dt \<le> 9999" "1 \<le> dt_month dt" "dt_month dt \<le> 12"
    "1 \<le> dt_day dt" "dt_day dt \<le> 31"
  shows "\<exists>tl. re_matches (strftime_ymd dt) = (dt_year dt, dt_month dt, dt_day dt, []) # tl"
proof -
  let ?Y = "[digit_char (dt_year dt div 1000 mod 10), digit_char (dt_year dt div 100 mod 10),
             digit_char (dt_year dt div 10 mod 10), digit_char (dt_year dt mod 10)]"
  let ?M = "[digit_char (dt_month dt div 10 mod 10), digit_char (dt_month dt mod 10)]"
  let ?D = "[digit_char (dt_day dt div 10 mod 10), digit_char (dt_day dt mod 10)]"
  from re_day_digits [OF assms(5,6)] obtain tl where
    d: "re_day ?D = (dt_day dt, []) # tl"
    by blast
  have s: "strftime_ymd dt = ?Y @ (CHR ''-'' # (?M @ CHR ''-'' # ?D))"
    by (simp add: strftime_ymd_def)
  have y: "re_year (?Y @ (CHR ''-'' # (?M @ CHR ''-'' # ?D))) =
             [(dt_year dt, CHR ''-'' # (?M @ CHR ''-'' # ?D))]"
    by (rule re_year_digits [OF assms(1,2)])
  have dash: "re_dash (CHR ''-'' # x) = [x]" for x
    by simp
  have m: "concat (map (\<lambda>(m', r2). concat (map (\<lambda>r3. map (\<lambda>(d, r4). (dt_year dt, m', d, r4))
                  (re_day r3)) (re_dash r2))) (re_month (?M @ CHR ''-'' # ?D)))
           = map (\<lambda>(d, r4). (dt_year dt, dt_month dt, d, r4)) (re_day ?D)"
    using re_month_dash [OF assms(3,4),
        where G = "\<lambda>m' r3. map (\<lambda>(d, r4). (dt_year dt, m', d, r4)) (re_day r3)" and r = ?D]
    by simp
  have "re_matches (strftime_ymd dt) =
          map (\<lambda>(d, r4). (dt_year dt, dt_month dt, d, r4)) (re_day ?D)"
    unfolding re_matches_def s y
    by (simp only: list.map concat.simps prod.case dash m append_Nil2)
  then show ?thesis
    by (simp only: d list.map prod.case) blast
qed

lemma strptime_strftime:
  assumes "1 \<le> dt_year dt" "dt_year dt \<le> 9999" "1 \<le> dt_month dt" "dt_month dt \<le> 12"
    "1 \<le> dt_day dt" "dt_day dt \<le> days_in_month (dt_year dt) (dt_month dt)"
  shows "strptime_ymd (strftime_ymd dt) =
           Inr \<lparr>dt_year = dt_year dt, dt_month = dt_month dt, dt_day = dt_day dt, dt_hour = 0,
                dt_minute = 0, dt_second = 0, dt_microsecond = 0\<rparr>"
proof -
  have "dt_day dt \<le> 31"
    using assms(6) days_in_month_le_31 [OF assms(3,4), of "dt_year dt"] by linarith
  moreover have "0 \<le> dt_year dt" using assms(1) by linarith
  ultimately obtain tl where
    "re_matches (strftime_ymd dt) = (dt_year dt, dt_month dt, dt_day dt, []) # tl"
    using re_matches_iso [of dt] assms(2-5) by blast
  with assms show ?thesis
    by (simp add: strptime_ymd_def)
qed

lemma extract_parsed:
  assumes "strptime_ymd (get_or (departureDate data) (strftime_ymd (now t))) = Inr d"
  shows "month (fst (extract_features now t data)) = dt_month d \<and>
         day_of_week (fst (extract_features now t data)) = weekday d \<and>
         day_of_month (fst (extract_features now t data)) = dt_day d \<and>
         days_until_departure (fst (extract_features now t data)) =
           max 0 (sub_days d (now (Suc t))) \<and>
         snd (extract_features now t data) = t + 2"
  using assms
  by (simp add: extract_features_def Let_def parse_date_def max_def)

lemma extract_fallback:
  assumes "strptime_ymd (get_or (departureDate data) (strftime_ymd (now t))) = Inl e"
  shows "month (fst (extract_features now t data)) = dt_month (now (Suc t)) \<and>
         day_of_week (fst (extract_features now t data)) = weekday (now (Suc t)) \<and>
         day_of_month (fst (extract_features now t data)) = dt_day (now (Suc t)) \<and>
         days_until_departure (fst (extract_features now t data)) =
           max 0 (sub_days (now (Suc t)) (now (Suc (Suc t)))) \<and>
         snd (extract_features now t data) = t + 3"
  using assms
  by (simp add: extract_features_def Let_def parse_date_def max_def)

lemma extract_names:
  "map fst (feature_items (fst (extract_features now t data))) = training_columns"
  by (simp add: feature_items_def training_columns_def)

text \<open>
  Claim C7. Extraction parses the departure date as YYYY-MM-DD: when \<open>strptime\<close>
  returns a date, month, weekday, day of the month and the days until departure are those
  of that date, and the text YYYY-MM-DD of any date that exists is parsed to it. When
  \<open>strptime\<close> raises (a string that is not of that form, or names a day that does not
  exist), extraction takes a new reading of the clock in its place, and the features are
  those of the current date. Extraction has no error result at all, so nothing is
  surfaced, and the dictionary it returns has its nine fields in both cases.
\<close>

theorem departure_date_parsed_or_current:
  "(strptime_ymd (get_or (departureDate data) (strftime_ymd (now t))) = Inr d \<longrightarrow>
      month (fst (extract_features now t data)) = dt_month d \<and>
      day_of_week (fst (extract_features now t data)) = weekday d \<and>
      day_of_month (fst (extract_features now t data)) = dt_day d \<and>
      days_until_departure (fst (extract_features now t data)) =
        max 0 (sub_days d (now (Suc t))) \<and>
      snd (extract_features now t data) = t + 2) \<and>
   (1 \<le> dt_year dt \<and> dt_year dt \<le> 9999 \<and> 1 \<le> dt_month dt \<and> dt_month dt \<le> 12 \<and>
    1 \<le> dt_day dt \<and> dt_day dt \<le> days_in_month (dt_year dt) (dt_month dt) \<and>
    departureDate data = Some (strftime_ymd dt) \<longrightarrow>
      strptime_ymd (strftime_ymd dt) =
        Inr \<lparr>dt_year = dt_year dt, dt_month = dt_month dt, dt_day = dt_day dt, dt_hour = 0,
             dt_minute = 0, dt_second = 0, dt_microsecond = 0\<rparr> \<and>
      month (fst (extract_features now t data)) = dt_month dt \<and>
      day_of_week (fst (extract_features now t data)) = weekday dt \<and>
      day_of_month (fst (extract_features now t data)) = dt_day dt) \<and>
   (strptime_ymd (get_or (departureDate data) (strftime_ymd (now t))) = Inl e \<longrightarrow>
      month (fst (extract_features now t data)) = dt_month (now (Suc t)) \<and>
      day_of_week (fst (extract_features now t data)) = weekday (now (Suc t)) \<and>
      day_of_month (fst (extract_features now t data)) = dt_day (now (Suc t)) \<and>
      days_until_departure (fst (extract_features now t data)) =
        max 0 (sub_days (now (Suc t)) (now (Suc (Suc t)))) \<and>
      snd (extract_features now t data) = t + 3) \<and>
   map fst (feature_items (fst (extract_features now t data))) = training_columns"
proof (intro conjI impI)
  assume "strptime_ymd (get_or (departureDate data) (strftime_ymd (now t))) = Inr d"
  from extract_parsed [where data = data and now = now and t = t, OF this]
  show "month (fst (extract_features now t data)) = dt_month d"
    and "day_of_week (fst (extract_features now t data)) = weekday d"
    and "day_of_month (fst (extract_features now t data)) = dt_day d"
    and "days_until_departure (fst (extract_features now t data)) =
           max 0 (sub_days d (now (Suc t)))"
    and "snd (extract_features now t data) = t + 2"
    by simp_all
next
  assume "strptime_ymd (get_or (departureDate data) (strftime_ymd (now t))) = Inl e"
  from extract_fallback [where data = data and now = now and t = t, OF this]
  show "month (fst (extract_features now t data)) = dt_month (now (Suc t))"
    and "day_of_week (fst (extract_features now t data)) = weekday (now (Suc t))"
    and "day_of_month (fst (extract_features now t data)) = dt_day (now (Suc t))"
    and "days_until_departure (fst (extract_features now t data)) =
           max 0 (sub_days (now (Suc t)) (now (Suc (Suc t))))"
    and "snd (extract_features now t data) = t + 3"
    by simp_all
next
  show "map fst (feature_items (fst (extract_features now t data))) = training_columns"
    by (rule extract_names)
next
  assume v: "1 \<le> dt_year dt \<and> dt_year dt \<le> 9999 \<and> 1 \<le> dt_month dt \<and> dt_month dt \<le> 12 \<and>
    1 \<le> dt_day dt \<and> dt_day dt \<le> days_in_month (dt_year dt) (dt_month dt) \<and>
    departureDate data = Some (strftime_ymd dt)"
  let ?m = "\<lparr>dt_year = dt_year dt, dt_month = dt_month dt, dt_day = dt_day dt, dt_hour = 0,
             dt_minute = 0, dt_second = 0, dt_microsecond = 0\<rparr>"
  from v have rt: "strptime_ymd (strftime_ymd dt) = Inr ?m"
    by (intro strptime_strftime) simp_all
  from v have "get_or (departureDate data) (strftime_ymd (now t)) = strftime_ymd dt"
    by (simp add: get_or_def)
  with rt have p: "strptime_ymd (get_or (departureDate data) (strftime_ymd (now t))) = Inr ?m"
    by simp
  have w: "weekday ?m = weekday dt"
    by (simp add: weekday_def toordinal_def)
  show "strptime_ymd (strftime_ymd dt) = Inr ?m" by (rule rt)
  from extract_parsed [where data = data and now = now and t = t, OF p] w
  show "month (fst (extract_features now t data)) = dt_month dt"
    and "day_of_week (fst (extract_features now t data)) = weekday dt"
    and "day_of_month (fst (extract_features now t data)) = dt_day dt"
    by simp_all
qed

theorem departure_date_parsed_or_current_witness:
  "strptime_ymd ''2024-07-15'' =
     Inr \<lparr>dt_year = 2024, dt_month = 7, dt_day = 15, dt_hour = 0, dt_minute = 0,
          dt_second = 0, dt_microsecond = 0\<rparr> \<and>
   strftime_ymd \<lparr>dt_year = 2024, dt_month = 7, dt_day = 15, dt_hour = 18, dt_minute = 5,
          dt_second = 0, dt_microsecond = 0\<rparr> = ''2024-07-15'' \<and>
   extract_features example_clock 0 example_request =
     (\<lparr>duration_minutes = 60, month = 7, day_of_week = 0, day_of_month = 15,
       days_until_departure = 4, is_weekend = 0, is_peak_season = 1, distance = 50,
       is_international = 0\<rparr>, 2) \<and>
   strptime_ymd ''15/07/2024'' = Inl ValueError \<and>
   extract_features example_clock 0 malformed_date_request =
     (\<lparr>duration_minutes = 90, month = 7, day_of_week = 2, day_of_month = 10,
       days_until_departure = 0, is_weekend = 0, is_peak_season = 1, distance = 2500,
       is_international = 1\<rparr>, 3)"
proof -
  let ?dt = "\<lparr>dt_year = 2024, dt_month = 7, dt_day = 15, dt_hour = 18, dt_minute = 5,
          dt_second = 0, dt_microsecond = 0\<rparr>"
  let ?d = "\<lparr>dt_year = 2024, dt_month = 7, dt_day = 15, dt_hour = 0, dt_minute = 0,
          dt_second = 0, dt_microsecond = 0\<rparr>"
  have ok: "strptime_ymd (get_or (departureDate example_request)
             (strftime_ymd (example_clock 0))) = Inr ?d"
    by (simp add: example_request_def get_or_def date_defs)
  have fmt: "strftime_ymd ?dt = ''2024-07-15''"
    by (simp add: strftime_ymd_def digit_char_def)
  have valid: "1 \<le> dt_year ?dt \<and> dt_year ?dt \<le> 9999 \<and> 1 \<le> dt_month ?dt \<and>
      dt_month ?dt \<le> 12 \<and> 1 \<le> dt_day ?dt \<and>
      dt_day ?dt \<le> days_in_month (dt_year ?dt) (dt_month ?dt) \<and>
      departureDate example_request = Some (strftime_ymd ?dt)"
    by (simp add: fmt example_request_def days_in_month_def DAYS_IN_MONTH_def)
  have bad: "strptime_ymd (get_or (departureDate malformed_date_request)
             (strftime_ymd (example_clock 0))) = Inl ValueError"
    by (simp add: malformed_date_request_def get_or_def date_defs)
  have e1: "extract_features example_clock 0 example_request =
     (\<lparr>duration_minutes = 60, month = 7, day_of_week = 0, day_of_month = 15,
       days_until_departure = 4, is_weekend = 0, is_peak_season = 1, distance = 50,
       is_international = 0\<rparr>, 2)"
    by (simp add: example_request_def extract_defs date_defs example_clock_def)
  have e2: "extract_features example_clock 0 malformed_date_request =
     (\<lparr>duration_minutes = 90, month = 7, day_of_week = 2, day_of_month = 10,
       days_until_departure = 0, is_weekend = 0, is_peak_season = 1, distance = 2500,
       is_international = 1\<rparr>, 3)"
    by (simp add: malformed_date_request_def extract_defs date_defs example_clock_def)
  from departure_date_parsed_or_current
         [where data = example_request and now = example_clock and t = 0 and d = ?d
            and dt = ?dt and e = ValueError]
       departure_date_parsed_or_current
         [where data = malformed_date_request and now = example_clock and t = 0 and d = ?d
            and dt = ?dt and e = ValueError]
       ok fmt valid bad e1 e2
  show ?thesis
    by (simp add: example_request_def malformed_date_request_def get_or_def)
qed

subsection \<open>Rounding\<close>





subsection \<open>Loading and training\<close>

lemma train_new_model_sets_model: "model (snd (train_new_model env s)) \<noteq> None"
  by (simp add: train_new_model_def Let_def split: sum.splits option.splits)

lemma train_model_sets_model: "model (snd (train_model env s)) \<noteq> None"
  using train_new_model_sets_model
  by (auto simp add: train_model_def joblib_load_def split: option.splits artifact.splits)

lemma ensure_model_sets_model: "model (snd (ensure_model env s)) \<noteq> None"
  using train_model_sets_model by (auto simp add: ensure_model_def)

lemma ensure_model_loaded: "model s \<noteq> None \<Longrightarrow> ensure_model env s = (Inr (), s)"
  by (auto simp add: ensure_model_def)

text \<open>
  Claim C1 says that \<open>retrain\<close> always regenerates the data and refits. The handler calls
  \<open>train_model\<close>, which first tries the persisted artifact: when the file loads, the
  handler answers "retrained" after doing no more than replacing the in-memory model by
  the one on disk. Nothing is generated or fitted (the training environment is never
  consulted, and no training is logged) and the artifact is not overwritten.
\<close>

theorem retrain_reloads_existing_artifact:
  "retrain env (s\<lparr>model_file := Some (Pickled m)\<rparr>) =
     (RetrainOk, s\<lparr>model_file := Some (Pickled m), model := Some m,
                    logged := logged s @ [LogModelLoaded]\<rparr>)"
  by (simp add: retrain_def train_model_def joblib_load_def)

text \<open>The same at a concrete state, with an environment in which fitting would fail.\<close>

lemma retrain_state_loaded:
  "retrain env_fit_fails state_loaded = (RetrainOk, state_loaded\<lparr>logged := [LogModelLoaded]\<rparr>)"
  by (simp add: retrain_def train_model_def joblib_load_def state_loaded_def)

text \<open>
  Claim C2 says that a failure of loading or of fitting is reported to the caller and
  leaves the model reference as it was. A load failure is not reported: with a corrupt
  artifact on disk and nothing in memory, \<open>train_model\<close> returns normally, \<open>retrain\<close>
  answers success, and the model reference has changed from unset to the new model.
\<close>

theorem load_failure_not_reported_counterexample:
  "model_file state_corrupt = Some Corrupt \<and> joblib_load Corrupt = Inl LoadError \<and>
   fst (train_model env_ok state_corrupt) = Inr () \<and>
   fst (retrain env_ok state_corrupt) = RetrainOk \<and>
   model state_corrupt = None \<and>
   model (snd (train_model env_ok state_corrupt)) = Some example_estimator"
  by (simp add: state_corrupt_def env_ok_def train_model_def joblib_load_def
      train_new_model_def retrain_def example_estimator_def Let_def)

text \<open>
  Claim C2, amended. A load failure is absorbed: it is logged, training runs, and when
  fitting and saving succeed \<open>train_model\<close> returns normally with the newly fitted model
  in memory and on disk. A fit failure is reported: \<open>train_model\<close> raises it, and
  \<open>retrain\<close> answers 500 with it.
\<close>

theorem load_failure_absorbed_fit_failure_reported:
  "(model_file s = Some Corrupt \<and> fit env training_columns = Inr fo \<and> dump env = None \<longrightarrow>
      train_model env s =
        (Inr (),
         s\<lparr>model := Some (new_regressor\<lparr>fitted := Some fo\<rparr>),
           model_file := Some (Pickled (new_regressor\<lparr>fitted := Some fo\<rparr>)),
           logged := logged s @ [LogLoadFailed LoadError, LogTrainingNew, LogTrainedSaved]\<rparr>) \<and>
      fst (retrain env s) = RetrainOk) \<and>
   ((model_file s = None \<or> model_file s = Some Corrupt) \<and>
    fit env training_columns = Inl e \<longrightarrow>
      fst (train_model env s) = Inl e \<and> fst (retrain env s) = Failure 500 (Raised e))"
  by (auto simp add: train_model_def joblib_load_def train_new_model_def retrain_def Let_def)

theorem load_failure_absorbed_fit_failure_reported_witness:
  "model_file state_corrupt = Some Corrupt \<and>
   fit env_ok training_columns = Inr example_forest \<and> dump env_ok = None \<and>
   train_model env_ok state_corrupt =
     (Inr (),
      \<lparr>model = Some example_estimator, model_file = Some (Pickled example_estimator),
       logged = [LogLoadFailed LoadError, LogTrainingNew, LogTrainedSaved]\<rparr>) \<and>
   fst (retrain env_ok state_corrupt) = RetrainOk \<and>
   fit env_fit_fails training_columns = Inl FitError \<and>
   fst (train_model env_fit_fails state_corrupt) = Inl FitError \<and>
   fst (retrain env_fit_fails state_corrupt) = Failure 500 (Raised FitError)"
proof -
  have h1: "model_file state_corrupt = Some Corrupt \<and>
      fit env_ok training_columns = Inr example_forest \<and> dump env_ok = None"
    by (simp add: state_corrupt_def env_ok_def)
  have h2: "(model_file state_corrupt = None \<or> model_file state_corrupt = Some Corrupt) \<and>
      fit env_fit_fails training_columns = Inl FitError"
    by (simp add: state_corrupt_def env_fit_fails_def)
  from load_failure_absorbed_fit_failure_reported
         [where s = state_corrupt and env = env_ok and fo = example_forest] h1
       load_failure_absorbed_fit_failure_reported
         [where s = state_corrupt and env = env_fit_fails and e = FitError] h2
  show ?thesis
    by (simp add: state_corrupt_def example_estimator_def)
qed

text \<open>After a failed fit the global holds the estimator that was assigned before
  fitting, so it is set, and not fitted.\<close>

lemma fit_failure_leaves_unfitted_estimator:
  "(model_file s = None \<or> model_file s = Some Corrupt) \<Longrightarrow>
   fit env training_columns = Inl e \<Longrightarrow>
   model (snd (train_model env s)) = Some new_regressor"
  by (auto simp add: train_model_def joblib_load_def train_new_model_def Let_def)

subsection \<open>Single prediction\<close>

lemma upper_domestic: "a \<in> set domestic_airports \<Longrightarrow> upper a = a"
  by (auto simp add: domestic_airports_def upper_def upper_char_def)

lemma domestic_codes_pass_test:
  assumes "fromAirport data = Some a" "toAirport data = Some b"
    and "a \<in> set domestic_airports" "b \<in> set domestic_airports"
  shows "is_domestic data"
  using assms by (simp add: is_domestic_def get_or_def upper_domestic)






















text \<open>A request with a malformed date is priced like any other: the handler answers
  success, with the features of the current date.\<close>

lemma predict_malformed_date:
  "predict env_ok example_clock state_loaded (Some malformed_date_request) =
     (PredictOk 145.13 ''USD''
        \<lparr>duration_minutes = 90, month = 7, day_of_week = 2, day_of_month = 10,
         days_until_departure = 0, is_weekend = 0, is_peak_season = 1, distance = 2500,
         is_international = 1\<rparr> 0.85,
      state_loaded\<lparr>logged := [LogPrediction (Some ''IST'') (Some ''LHR'') 145.13]\<rparr>)"
proof -
  have e: "extract_features example_clock 0 malformed_date_request =
     (\<lparr>duration_minutes = 90, month = 7, day_of_week = 2, day_of_month = 10,
       days_until_departure = 0, is_weekend = 0, is_peak_season = 1, distance = 2500,
       is_international = 1\<rparr>, 3)"
    by (simp add: malformed_date_request_def extract_defs date_defs example_clock_def)
  have ne: "\<not> is_empty malformed_date_request"
    by (simp add: is_empty_def malformed_date_request_def)
  have nd: "\<not> is_domestic malformed_date_request"
    by (simp add: malformed_date_request_def is_domestic_def get_or_def upper_def
        upper_char_def domestic_airports_def)
  have a: "fromAirport malformed_date_request = Some ''IST''"
    "toAirport malformed_date_request = Some ''LHR''"
    by (simp_all add: malformed_date_request_def)
  show ?thesis
    by (simp add: predict_def Let_def ne nd e a model_defs round2_def round_half_even_def)
qed

text \<open>
  Claim C10. The test of the override and the feature \<open>is_international\<close> can disagree,
  both ways. A request without airport fields (and not empty) is domestic for extraction,
  which defaults them to IST and SAW, and not for the override, which defaults them to
  the empty string. A request with the codes in lower case is international for
  extraction, which compares them as given, and domestic for the override, which
  compares them in upper case.
\<close>

theorem domestic_test_disagrees_with_feature:
  "(let data = \<lparr>fromAirport = None, toAirport = None, departureDate = dd,
                 durationMinutes = Some 60\<rparr>
    in \<not> is_empty data \<and> is_international (fst (extract_features now t data)) = 0 \<and>
       \<not> is_domestic data) \<and>
   (let data = \<lparr>fromAirport = Some ''ist'', toAirport = Some ''saw'', departureDate = dd,
                 durationMinutes = dm\<rparr>
    in \<not> is_empty data \<and> is_international (fst (extract_features now t data)) = 1 \<and>
       is_domestic data)"
  by (simp add: Let_def is_empty_def extract_features_def get_or_def is_domestic_def
      domestic_airports_def upper_def upper_char_def split: prod.splits)

subsection \<open>Batch prediction\<close>

text \<open>Once a model is in memory the loop leaves the state alone, and every flight adds
  one prediction at the end of the list.\<close>

lemma batch_loop_loaded:
  assumes "model s \<noteq> None"
    and "batch_loop env now fls t s acc = (Inr ps, s')"
  shows "s' = s \<and>
    (\<exists>new. ps = acc @ new \<and>
       list_all2
         (\<lambda>fl p. out_fromAirport p = fromAirport fl \<and> out_toAirport p = toAirport fl \<and>
                 out_departureDate p = departureDate fl \<and>
                 (\<exists>t0 raw. model_predict (model s) (feature_items (fst (extract_features now t0 fl)))
                              = Inr raw \<and>
                           predictedPrice p = round2 (max raw 30)))
         fls new)"
  using assms
proof (induction fls arbitrary: t acc)
  case Nil
  then show ?case by simp
next
  case (Cons fl rest)
  obtain f t' where ex: "extract_features now t fl = (f, t')"
    by (cases "extract_features now t fl")
  have em: "ensure_model env s = (Inr (), s)"
    using Cons.prems(1) by (rule ensure_model_loaded)
  show ?case
  proof (cases "model_predict (model s) (feature_items f)")
    case (Inl e)
    with Cons.prems(2) ex em show ?thesis by simp
  next
    case (Inr raw)
    let ?p = "\<lparr>out_fromAirport = fromAirport fl, out_toAirport = toAirport fl,
               out_departureDate = departureDate fl, predictedPrice = round2 (max raw 30)\<rparr>"
    from Cons.prems(2) ex em Inr
    have step: "batch_loop env now rest t' s (acc @ [?p]) = (Inr ps, s')"
      by simp
    from Cons.IH [OF Cons.prems(1) step] obtain new where
      s: "s' = s" and ps: "ps = (acc @ [?p]) @ new" and
      all: "list_all2
         (\<lambda>fl p. out_fromAirport p = fromAirport fl \<and> out_toAirport p = toAirport fl \<and>
                 out_departureDate p = departureDate fl \<and>
                 (\<exists>t0 raw. model_predict (model s) (feature_items (fst (extract_features now t0 fl)))
                              = Inr raw \<and>
                           predictedPrice p = round2 (max raw 30)))
         rest new"
      by blast
    have here: "\<exists>t0 raw. model_predict (model s) (feature_items (fst (extract_features now t0 fl)))
                   = Inr raw \<and> predictedPrice ?p = round2 (max raw 30)"
      using ex Inr by (intro exI [of _ t] exI [of _ raw]) simp
    have "ps = acc @ (?p # new)" using ps by simp
    moreover have "list_all2
         (\<lambda>fl p. out_fromAirport p = fromAirport fl \<and> out_toAirport p = toAirport fl \<and>
                 out_departureDate p = departureDate fl \<and>
                 (\<exists>t0 raw. model_predict (model s) (feature_items (fst (extract_features now t0 fl)))
                              = Inr raw \<and>
                           predictedPrice p = round2 (max raw 30)))
         (fl # rest) (?p # new)"
      using all here by simp
    ultimately show ?thesis using s by blast
  qed
qed

text \<open>From any state: the first flight loads or trains the model if there is none.\<close>

lemma batch_loop_items:
  assumes "batch_loop env now fls t s acc = (Inr ps, s')"
  shows "\<exists>new. ps = acc @ new \<and>
       list_all2
         (\<lambda>fl p. out_fromAirport p = fromAirport fl \<and> out_toAirport p = toAirport fl \<and>
                 out_departureDate p = departureDate fl \<and>
                 (\<exists>t0 raw. model_predict (model s') (feature_items (fst (extract_features now t0 fl)))
                              = Inr raw \<and>
                           predictedPrice p = round2 (max raw 30)))
         fls new"
proof (cases fls)
  case Nil
  with assms show ?thesis by simp
next
  case (Cons fl rest)
  obtain f t' where ex: "extract_features now t fl = (f, t')"
    by (cases "extract_features now t fl")
  obtain r s1 where em: "ensure_model env s = (r, s1)"
    by (cases "ensure_model env s")
  have loaded: "model s1 \<noteq> None"
    using ensure_model_sets_model [of env s] em by simp
  have id: "ensure_model env s1 = (Inr (), s1)"
    using loaded by (rule ensure_model_loaded)
  show ?thesis
  proof (cases r)
    case (Inl e)
    with assms Cons ex em show ?thesis by simp
  next
    case (Inr u)
    note ru = this
    show ?thesis
    proof (cases "model_predict (model s1) (feature_items f)")
      case (Inl e)
      with assms Cons ex em ru show ?thesis by simp
    next
      case (Inr raw)
      from assms Cons ex em ru Inr id
      have "batch_loop env now (fl # rest) t s1 acc = (Inr ps, s')"
        by simp
      with Cons have again: "batch_loop env now fls t s1 acc = (Inr ps, s')"
        by simp
      from batch_loop_loaded [OF loaded again] show ?thesis
        by simp
    qed
  qed
qed

text \<open>With a fitted model in memory that prices every row, the batch succeeds and leaves
  the state as it was.\<close>

lemma batch_loop_succeeds:
  assumes "model s = Some m" and "fitted m = Some fo"
    and "\<And>f. \<exists>raw. predict_fn fo (feature_items f) = Inr raw"
  shows "\<exists>ps. batch_loop env now fls t s acc = (Inr ps, s)"
proof (induction fls arbitrary: t acc)
  case Nil
  show ?case by simp
next
  case (Cons fl rest)
  obtain f t' where ex: "extract_features now t fl = (f, t')"
    by (cases "extract_features now t fl")
  have em: "ensure_model env s = (Inr (), s)"
    using assms(1) by (simp add: ensure_model_def)
  from assms(3) obtain raw where "predict_fn fo (feature_items f) = Inr raw"
    by blast
  then have mp: "model_predict (model s) (feature_items f) = Inr raw"
    using assms(1,2) by (simp add: model_predict_def)
  from Cons.IH [of t'] ex em mp show ?case
    by simp
qed

lemma predict_batch_succeeds:
  assumes "flights data = Some fls"
    and "model s = Some m" and "fitted m = Some fo"
    and "\<And>f. \<exists>raw. predict_fn fo (feature_items f) = Inr raw"
  shows "\<exists>ps. predict_batch env now s (Some data) = (BatchOk ps, s)"
proof -
  from batch_loop_succeeds [OF assms(2-4), of env now fls 0 "[]"]
  obtain ps where "batch_loop env now fls 0 s [] = (Inr ps, s)" by blast
  with assms(1) show ?thesis
    by (simp add: predict_batch_def)
qed

text \<open>
  Claim C5. A successful batch response has one prediction per flight of the request, in
  the order of the request; each echoes \<open>fromAirport\<close>, \<open>toAirport\<close> and \<open>departureDate\<close>
  of its flight as they were given, and its price is the raw output of the model for the
  features of that flight, floored at 30 and rounded to two decimals: the domestic
  override has no part in it.
\<close>

theorem predict_batch_one_per_flight:
  assumes "flights data = Some fls"
    and "predict_batch env now s (Some data) = (BatchOk ps, s')"
  shows "length ps = length fls \<and>
    (\<forall>i<length fls.
       out_fromAirport (ps ! i) = fromAirport (fls ! i) \<and>
       out_toAirport (ps ! i) = toAirport (fls ! i) \<and>
       out_departureDate (ps ! i) = departureDate (fls ! i) \<and>
       (\<exists>t raw. model_predict (model s') (feature_items (fst (extract_features now t (fls ! i))))
                   = Inr raw \<and>
                 predictedPrice (ps ! i) = round2 (max raw 30)))"
proof -
  obtain r s1 where bl: "batch_loop env now fls 0 s [] = (r, s1)"
    by (cases "batch_loop env now fls 0 s []")
  with assms have "r = Inr ps \<and> s1 = s'"
    by (cases r) (simp_all add: predict_batch_def)
  with bl have "batch_loop env now fls 0 s [] = (Inr ps, s')" by simp
  from batch_loop_items [OF this] show ?thesis
    by (simp add: list_all2_conv_all_nth)
qed

lemma example_batch_features:
  "extract_features example_clock 0 van_request =
     (\<lparr>duration_minutes = 100, month = 9, day_of_week = 2, day_of_month = 18,
      days_until_departure = 69, is_weekend = 0, is_peak_season = 0, distance = 1200,
      is_international = 0\<rparr>, 2)"
  "extract_features example_clock 2 malformed_date_request =
     (\<lparr>duration_minutes = 90, month = 7, day_of_week = 2, day_of_month = 10,
      days_until_departure = 0, is_weekend = 0, is_peak_season = 1, distance = 2500,
      is_international = 1\<rparr>, 5)"
  "extract_features example_clock 5 example_request =
     (\<lparr>duration_minutes = 60, month = 7, day_of_week = 0, day_of_month = 15,
      days_until_departure = 4, is_weekend = 0, is_peak_season = 1, distance = 50,
      is_international = 0\<rparr>, 7)"
  by (simp_all add: van_request_def malformed_date_request_def example_request_def
      extract_defs date_defs example_clock_def)

lemma example_batch_result:
  "predict_batch env_ok example_clock state_corrupt (Some example_batch) =
     (BatchOk
        [\<lparr>out_fromAirport = Some ''IST'', out_toAirport = Some ''VAN'',
          out_departureDate = Some ''2024-09-18'', predictedPrice = 80.13\<rparr>,
         \<lparr>out_fromAirport = Some ''IST'', out_toAirport = Some ''LHR'',
          out_departureDate = Some ''15/07/2024'', predictedPrice = 145.13\<rparr>,
         \<lparr>out_fromAirport = Some ''IST'', out_toAirport = Some ''SAW'',
          out_departureDate = Some ''2024-07-15'', predictedPrice = 30\<rparr>],
      \<lparr>model = Some example_estimator, model_file = Some (Pickled example_estimator),
       logged = [LogLoadFailed LoadError, LogTrainingNew, LogTrainedSaved]\<rparr>)"
proof -
  have tr: "train_model env_ok state_corrupt =
      (Inr (), \<lparr>model = Some example_estimator, model_file = Some (Pickled example_estimator),
       logged = [LogLoadFailed LoadError, LogTrainingNew, LogTrainedSaved]\<rparr>)"
    by (simp add: train_model_def train_new_model_def joblib_load_def state_corrupt_def
        env_ok_def example_estimator_def Let_def)
  have m0: "model state_corrupt = None" by (simp add: state_corrupt_def)
  have fields:
    "fromAirport van_request = Some ''IST''" "toAirport van_request = Some ''VAN''"
    "departureDate van_request = Some ''2024-09-18''"
    "fromAirport malformed_date_request = Some ''IST''"
    "toAirport malformed_date_request = Some ''LHR''"
    "departureDate malformed_date_request = Some ''15/07/2024''"
    "fromAirport example_request = Some ''IST''" "toAirport example_request = Some ''SAW''"
    "departureDate example_request = Some ''2024-07-15''"
    by (simp_all add: van_request_def malformed_date_request_def example_request_def)
  show ?thesis
    by (simp add: predict_batch_def example_batch_def example_batch_features ensure_model_def
        m0 tr model_predict_def example_estimator_def example_forest_def new_regressor_def
        feature_items_def round2_def round_half_even_def fields)
qed


theorem predict_batch_one_per_flight_witness:
  "flights example_batch = Some [van_request, malformed_date_request, example_request] \<and>
   predict_batch env_ok example_clock state_corrupt (Some example_batch) =
     (BatchOk
        [\<lparr>out_fromAirport = Some ''IST'', out_toAirport = Some ''VAN'',
          out_departureDate = Some ''2024-09-18'', predictedPrice = 80.13\<rparr>,
         \<lparr>out_fromAirport = Some ''IST'', out_toAirport = Some ''LHR'',
          out_departureDate = Some ''15/07/2024'', predictedPrice = 145.13\<rparr>,
         \<lparr>out_fromAirport = Some ''IST'', out_toAirport = Some ''SAW'',
          out_departureDate = Some ''2024-07-15'', predictedPrice = 30\<rparr>],
      \<lparr>model = Some example_estimator, model_file = Some (Pickled example_estimator),
       logged = [LogLoadFailed LoadError, LogTrainingNew, LogTrainedSaved]\<rparr>) \<and>
   length
     [\<lparr>out_fromAirport = Some ''IST'', out_toAirport = Some ''VAN'',
       out_departureDate = Some ''2024-09-18'', predictedPrice = 80.13\<rparr>,
      \<lparr>out_fromAirport = Some ''IST'', out_toAirport = Some ''LHR'',
       out_departureDate = Some ''15/07/2024'', predictedPrice = 145.13\<rparr>,
      \<lparr>out_fromAirport = Some ''IST'', out_toAirport = Some ''SAW'',
       out_departureDate = Some ''2024-07-15'', predictedPrice = (30::real)\<rparr>] =
   length [van_request, malformed_date_request, example_request]"
proof -
  have f: "flights example_batch = Some [van_request, malformed_date_request, example_request]"
    by (simp add: example_batch_def)
  from predict_batch_one_per_flight [OF f example_batch_result] f example_batch_result
  show ?thesis by simp
qed

end
